theory Spec2Isabelle
  imports Complex_Main "HOL-Library.Word"
begin

unbundle bit_operations_syntax

section \<open>Math utilities (smoothing_utils.h, deadzone_utils.h)\<close>

text \<open>
  The arithmetic of the processing pipeline is modelled over the real numbers: a C++
  \<open>float\<close> or \<open>double\<close> that takes part in arithmetic is a \<open>real\<close>, and a
  \<open>static_cast\<close> between the two is the identity. Rounding, overflow to infinity and
  NaN are therefore outside this part of the model. The \<open>float\<close> and \<open>double\<close>
  overloads of a function have the same body and share one definition.
\<close>

definition kRemoteConnectionBaseline :: real where
  "kRemoteConnectionBaseline = 15 / 100"

definition Lerp :: "real \<Rightarrow> real \<Rightarrow> real \<Rightarrow> real" where
  "Lerp a b t = a + (b - a) * t"

definition CalculateSmoothingFactor :: "real \<Rightarrow> real \<Rightarrow> real" where
  "CalculateSmoothingFactor smoothing delta_time =
     (if smoothing < 1 / 1000 then 1
      else (let smoothing_speed = Lerp 50 (1 / 10) smoothing
            in 1 - exp (- smoothing_speed * delta_time)))"

definition Smooth :: "real \<Rightarrow> real \<Rightarrow> real \<Rightarrow> real \<Rightarrow> real" where
  "Smooth current target smoothing delta_time =
     (let t = CalculateSmoothingFactor smoothing delta_time
      in current + (target - current) * t)"

definition GetEffectiveSmoothing :: "real \<Rightarrow> bool \<Rightarrow> real" where
  "GetEffectiveSmoothing base_smoothing is_remote_connection =
     (if is_remote_connection \<and> base_smoothing < kRemoteConnectionBaseline
      then kRemoteConnectionBaseline
      else base_smoothing)"

definition ApplyDeadzone :: "real \<Rightarrow> real \<Rightarrow> real" where
  "ApplyDeadzone v deadzone =
     (if deadzone \<le> 0 then v
      else (let abs_value = \<bar>v\<bar>
            in if abs_value \<le> deadzone then 0
               else (let sign = (if v \<ge> 0 then 1 else - 1)
                     in sign * (abs_value - deadzone))))"

section \<open>Data model (tracking_pose.h)\<close>

text \<open>
  Several structs of the repository share the field names \<open>yaw\<close>, \<open>pitch\<close> and
  \<open>roll\<close>. The records keep them; the unqualified names are those of the record declared
  last (\<open>TrackingPose\<close>), the others are written qualified, as in
  \<open>SensitivitySettings.yaw\<close>.

  A pose is generic in its number type: the processing pipeline computes with reals,
  the wire codec and the receivers only store and copy IEEE 754 single-precision bit
  patterns (\<open>32 word\<close>). \<open>int64_t\<close> timestamps are integers; nothing below depends on
  their wrap-around.
\<close>

type_synonym byte = "8 word"
type_synonym float32 = "32 word"
type_synonym float64 = "64 word"

record SensitivitySettings =
  yaw :: real
  pitch :: real
  roll :: real
  invert_yaw :: bool
  invert_pitch :: bool
  invert_roll :: bool

record DeadzoneSettings =
  yaw :: real
  pitch :: real
  roll :: real

record TrackingData =
  yaw :: float32
  pitch :: float32
  roll :: float32
  has_data :: bool

record 'f TrackingPose =
  yaw :: 'f
  pitch :: 'f
  roll :: 'f
  timestamp_us :: int

text \<open>
  \<open>TrackingPose(y, p, r)\<close> stamps \<open>CurrentTimestamp()\<close>, a reading of the monotonic
  clock. The reading is an input of the model (\<open>now\<close>); \<open>TrackingPose(y, p, r, ts)\<close>
  takes the timestamp as given, and the default constructor zeroes every field.
\<close>

definition TrackingPose_now :: "int \<Rightarrow> 'f \<Rightarrow> 'f \<Rightarrow> 'f \<Rightarrow> 'f TrackingPose" where
  "TrackingPose_now now y p r = \<lparr>yaw = y, pitch = p, roll = r, timestamp_us = now\<rparr>"

definition TrackingPose_ts :: "'f \<Rightarrow> 'f \<Rightarrow> 'f \<Rightarrow> int \<Rightarrow> 'f TrackingPose" where
  "TrackingPose_ts y p r ts = \<lparr>yaw = y, pitch = p, roll = r, timestamp_us = ts\<rparr>"

definition TrackingPose_default :: "('f::zero) TrackingPose" where
  "TrackingPose_default = \<lparr>yaw = 0, pitch = 0, roll = 0, timestamp_us = 0\<rparr>"

definition IsValid :: "'f TrackingPose \<Rightarrow> bool" where
  "IsValid pose = (timestamp_us pose \<noteq> 0)"

definition SensitivitySettings_Default :: SensitivitySettings where
  "SensitivitySettings_Default =
     \<lparr>SensitivitySettings.yaw = 1, pitch = 1, roll = 1,
      invert_yaw = False, invert_pitch = False, invert_roll = False\<rparr>"

definition DeadzoneSettings_None :: DeadzoneSettings where
  "DeadzoneSettings_None = \<lparr>DeadzoneSettings.yaw = 0, pitch = 0, roll = 0\<rparr>"

text \<open>
  \<open>TrackingData\<close> is the slot the receiver thread publishes into. Its atomics are plain
  fields here: the model is sequential (one operation at a time), so the memory orders of
  the loads and stores do not appear.
\<close>

definition TrackingData_init :: TrackingData where
  "TrackingData_init = \<lparr>TrackingData.yaw = 0, pitch = 0, roll = 0, has_data = False\<rparr>"

definition TrackingData_Set :: "TrackingData \<Rightarrow> float32 \<Rightarrow> float32 \<Rightarrow> float32 \<Rightarrow> TrackingData" where
  "TrackingData_Set td y p r =
     td\<lparr>TrackingData.yaw := y, TrackingData.pitch := p, TrackingData.roll := r, has_data := True\<rparr>"

definition TrackingData_Get :: "TrackingData \<Rightarrow> (float32 \<times> float32 \<times> float32) option" where
  "TrackingData_Get td =
     (if \<not> has_data td then None
      else Some (TrackingData.yaw td, TrackingData.pitch td, TrackingData.roll td))"

definition TrackingData_Reset :: "TrackingData \<Rightarrow> TrackingData" where
  "TrackingData_Reset td =
     td\<lparr>TrackingData.yaw := 0, TrackingData.pitch := 0, TrackingData.roll := 0, has_data := False\<rparr>"

section \<open>Center offset manager (center_offset_manager.cpp)\<close>

record CenterOffsetManager =
  m_centerOffset :: "real TrackingPose"
  m_hasValidCenter :: bool

definition CenterOffsetManager_init :: CenterOffsetManager where
  "CenterOffsetManager_init =
     \<lparr>m_centerOffset = TrackingPose_default, m_hasValidCenter = False\<rparr>"

definition SetCenter :: "CenterOffsetManager \<Rightarrow> real \<Rightarrow> real \<Rightarrow> real \<Rightarrow> CenterOffsetManager" where
  "SetCenter c y p r =
     c\<lparr>m_centerOffset := TrackingPose_ts y p r 0, m_hasValidCenter := True\<rparr>"

definition SetCenter_pose :: "CenterOffsetManager \<Rightarrow> real TrackingPose \<Rightarrow> CenterOffsetManager" where
  "SetCenter_pose c pose =
     c\<lparr>m_centerOffset := TrackingPose_ts (yaw pose) (pitch pose) (roll pose) 0,
       m_hasValidCenter := True\<rparr>"

text \<open>\<open>ApplyOffset\<close> updates its three reference arguments; it returns the new triple.\<close>

definition ApplyOffset :: "CenterOffsetManager \<Rightarrow> real \<times> real \<times> real \<Rightarrow> real \<times> real \<times> real" where
  "ApplyOffset c ypr =
     (case ypr of (y, p, r) \<Rightarrow>
        if \<not> m_hasValidCenter c then (y, p, r)
        else (y - yaw (m_centerOffset c),
              p - pitch (m_centerOffset c),
              r - roll (m_centerOffset c)))"

definition CenterOffsetManager_Reset :: "CenterOffsetManager \<Rightarrow> CenterOffsetManager" where
  "CenterOffsetManager_Reset c =
     c\<lparr>m_centerOffset := TrackingPose_default, m_hasValidCenter := False\<rparr>"

section \<open>Tracking processor (tracking_processor.cpp)\<close>

record TrackingProcessor =
  m_centerManager :: CenterOffsetManager
  m_smoothedYaw :: real
  m_smoothedPitch :: real
  m_smoothedRoll :: real
  m_hasSmoothedValue :: bool
  m_sensitivity :: SensitivitySettings
  m_deadzone :: DeadzoneSettings
  m_smoothingFactor :: real

definition TrackingProcessor_init :: TrackingProcessor where
  "TrackingProcessor_init =
     \<lparr>m_centerManager = CenterOffsetManager_init,
      m_smoothedYaw = 0, m_smoothedPitch = 0, m_smoothedRoll = 0,
      m_hasSmoothedValue = False,
      m_sensitivity = SensitivitySettings_Default,
      m_deadzone = DeadzoneSettings_None,
      m_smoothingFactor = 0\<rparr>"



definition SetSmoothing :: "TrackingProcessor \<Rightarrow> real \<Rightarrow> TrackingProcessor" where
  "SetSmoothing s smoothing = s\<lparr>m_smoothingFactor := smoothing\<rparr>"

text \<open>
  \<open>Process\<close> returns the pose and the processor after the call. \<open>now\<close> is the clock
  reading stamped on the returned pose.
\<close>

definition Process ::
  "int \<Rightarrow> TrackingProcessor \<Rightarrow> real \<Rightarrow> real \<Rightarrow> real \<Rightarrow> bool \<Rightarrow> real
     \<Rightarrow> real TrackingPose \<times> TrackingProcessor" where
  "Process now s yaw0 pitch0 roll0 is_remote_connection delta_time =
     (case ApplyOffset (m_centerManager s) (yaw0, pitch0, roll0) of (yaw1, pitch1, roll1) \<Rightarrow>
      let yaw2 = ApplyDeadzone yaw1 (DeadzoneSettings.yaw (m_deadzone s));
          pitch2 = ApplyDeadzone pitch1 (DeadzoneSettings.pitch (m_deadzone s));
          roll2 = ApplyDeadzone roll1 (DeadzoneSettings.roll (m_deadzone s));
          effective_smoothing = GetEffectiveSmoothing (m_smoothingFactor s) is_remote_connection;
          s' = (if \<not> m_hasSmoothedValue s
                then s\<lparr>m_smoothedYaw := yaw2, m_smoothedPitch := pitch2,
                       m_smoothedRoll := roll2, m_hasSmoothedValue := True\<rparr>
                else (let t = CalculateSmoothingFactor effective_smoothing delta_time
                      in s\<lparr>m_smoothedYaw := m_smoothedYaw s + (yaw2 - m_smoothedYaw s) * t,
                           m_smoothedPitch := m_smoothedPitch s + (pitch2 - m_smoothedPitch s) * t,
                           m_smoothedRoll := m_smoothedRoll s + (roll2 - m_smoothedRoll s) * t\<rparr>));
          out_yaw = m_smoothedYaw s' * SensitivitySettings.yaw (m_sensitivity s');
          out_pitch = m_smoothedPitch s' * SensitivitySettings.pitch (m_sensitivity s');
          out_roll = m_smoothedRoll s' * SensitivitySettings.roll (m_sensitivity s');
          out_yaw' = (if invert_yaw (m_sensitivity s') then - out_yaw else out_yaw);
          out_pitch' = (if invert_pitch (m_sensitivity s') then - out_pitch else out_pitch);
          out_roll' = (if invert_roll (m_sensitivity s') then - out_roll else out_roll)
      in (TrackingPose_now now out_yaw' out_pitch' out_roll', s'))"

definition Recenter :: "TrackingProcessor \<Rightarrow> TrackingProcessor" where
  "Recenter s =
     s\<lparr>m_centerManager :=
         SetCenter (m_centerManager s) (m_smoothedYaw s) (m_smoothedPitch s) (m_smoothedRoll s)\<rparr>"

definition RecenterTo :: "TrackingProcessor \<Rightarrow> real \<Rightarrow> real \<Rightarrow> real \<Rightarrow> TrackingProcessor" where
  "RecenterTo s y p r =
     s\<lparr>m_centerManager := SetCenter (m_centerManager s) y p r,
       m_smoothedYaw := 0, m_smoothedPitch := 0, m_smoothedRoll := 0\<rparr>"

definition Reset :: "TrackingProcessor \<Rightarrow> TrackingProcessor" where
  "Reset s =
     s\<lparr>m_centerManager := CenterOffsetManager_Reset (m_centerManager s),
       m_smoothedYaw := 0, m_smoothedPitch := 0, m_smoothedRoll := 0,
       m_hasSmoothedValue := False\<rparr>"

section \<open>Wire codec (opentrack_packet.cpp)\<close>

text \<open>
  The codec works on bytes and on IEEE 754 bit patterns. A \<open>double\<close> is the 64-bit word
  that \<open>memcpy\<close> assembles from eight consecutive bytes on a little-endian host (least
  significant byte first), a \<open>float\<close> is a 32-bit word. \<open>std::isnan\<close>, \<open>std::isinf\<close>
  and the conversion \<open>static_cast<float>\<close> are the IEEE 754 binary64 operations: the
  biased exponent is bits 52 to 62, the fraction bits 0 to 51, the sign bit 63, and the
  conversion rounds to nearest, ties to even.
\<close>

definition kMinPacketSize :: nat where "kMinPacketSize = 48"
definition kYawOffset :: nat where "kYawOffset = 24"
definition kPitchOffset :: nat where "kPitchOffset = 32"
definition kRollOffset :: nat where "kRollOffset = 40"

definition le_word64 :: "byte list \<Rightarrow> float64" where
  "le_word64 bs = foldr (\<lambda>b w. push_bit 8 w OR ucast b) bs 0"

definition load_double :: "byte list \<Rightarrow> nat \<Rightarrow> float64" where
  "load_double bytes off = le_word64 (take 8 (drop off bytes))"

definition double_exponent :: "float64 \<Rightarrow> nat" where
  "double_exponent d = unat (drop_bit 52 d AND 0x7FF)"

definition double_fraction :: "float64 \<Rightarrow> nat" where
  "double_fraction d = unat (take_bit 52 d)"

definition std_isnan :: "float64 \<Rightarrow> bool" where
  "std_isnan d = (double_exponent d = 2047 \<and> double_fraction d \<noteq> 0)"

definition std_isinf :: "float64 \<Rightarrow> bool" where
  "std_isinf d = (double_exponent d = 2047 \<and> double_fraction d = 0)"

text \<open>
  Rounding \<open>sig / 2 ^ sh\<close> to the nearest integer, ties to the even one.
\<close>

definition round_shift :: "nat \<Rightarrow> nat \<Rightarrow> nat" where
  "round_shift sig sh =
     (let q = sig div 2 ^ sh; r = sig mod 2 ^ sh
      in if 2 * r > 2 ^ sh \<or> (2 * r = 2 ^ sh \<and> odd q) then q + 1 else q)"

text \<open>
  The magnitude (bits 0 to 30) of the \<open>float\<close> nearest to a double with biased exponent
  \<open>e\<close> and fraction \<open>m\<close>. A normal double is \<open>(2 ^ 52 + m) * 2 ^ (e - 1075)\<close>. From
  \<open>e = 897\<close> on it lies in the range of the normal floats: 29 fraction bits are rounded
  away, and a carry out of the fraction moves into the exponent field, up to the pattern of
  infinity. Below, the result is a subnormal float, a multiple of \<open>2 ^ -149\<close>. A zero or
  subnormal double (\<open>e = 0\<close>) is less than half the smallest subnormal float and gives zero.
\<close>

definition float_magnitude :: "nat \<Rightarrow> nat \<Rightarrow> nat" where
  "float_magnitude e m =
     (if e = 2047 then (if m = 0 then 0x7F800000 else 0x7FC00000 + (m div 2 ^ 29) mod 2 ^ 22)
      else if e = 0 then 0
      else if 897 \<le> e then min 0x7F800000 ((e - 897) * 2 ^ 23 + round_shift (2 ^ 52 + m) 29)
      else round_shift (2 ^ 52 + m) (926 - e))"

definition double_to_float :: "float64 \<Rightarrow> float32" where
  "double_to_float d =
     push_bit 31 (ucast (drop_bit 63 d))
       OR of_nat (float_magnitude (double_exponent d) (double_fraction d))"

text \<open>
  \<open>TryParse\<close> takes the data pointer (\<open>None\<close> is the null pointer, \<open>Some bytes\<close> a
  pointer to readable bytes), the length the caller passes and the pose behind the output
  reference; it returns the result flag and the pose behind the reference afterwards.
  The caller guarantees that \<open>len\<close> bytes are readable.
\<close>

definition TryParse ::
  "int \<Rightarrow> byte list option \<Rightarrow> nat \<Rightarrow> float32 TrackingPose \<Rightarrow> bool \<times> float32 TrackingPose" where
  "TryParse now data len pose =
     (if data = None \<or> len < kMinPacketSize then (False, pose)
      else (let bytes = the data;
                y = load_double bytes kYawOffset;
                p = load_double bytes kPitchOffset;
                r = load_double bytes kRollOffset
            in if std_isnan y \<or> std_isinf y \<or>
                  std_isnan p \<or> std_isinf p \<or>
                  std_isnan r \<or> std_isinf r
               then (False, pose)
               else (True, TrackingPose_now now (double_to_float y) (double_to_float p)
                             (double_to_float r))))"

text \<open>
  The sample datagram of the specification: 48 bytes with the doubles 10.0
  (\<open>0x4024000000000000\<close>), -5.0 (\<open>0xC014000000000000\<close>) and 0.0 at the offsets 24, 32
  and 40, least significant byte first, and a variant whose yaw field holds a quiet NaN
  (\<open>0x7FF8000000000000\<close>).
\<close>

definition example_packet :: "byte list" where
  "example_packet =
     replicate 24 0 @ [0, 0, 0, 0, 0, 0, 0x24, 0x40] @ [0, 0, 0, 0, 0, 0, 0x14, 0xC0]
       @ [0, 0, 0, 0, 0, 0, 0, 0]"

definition nan_packet :: "byte list" where
  "nan_packet =
     replicate 24 0 @ [0, 0, 0, 0, 0, 0, 0xF8, 0x7F] @ [0, 0, 0, 0, 0, 0, 0x14, 0xC0]
       @ [0, 0, 0, 0, 0, 0, 0, 0]"

section \<open>Transport (udp_socket.cpp, socket_types.h)\<close>

text \<open>
  The POSIX branch of the sources is the one modelled. A socket is its handle;
  \<open>INVALID_SOCKET\<close> is \<open>-1\<close>. What the operating system answers is an input:
  \<open>UdpSocket_Open\<close> takes \<open>Some h\<close> when \<open>socket\<close>, \<open>fcntl\<close> and \<open>bind\<close> all succeed
  with handle \<open>h\<close>, and \<open>None\<close> when one of them fails. A sender address is the value
  \<open>ntohl(addr.sin_addr.s_addr)\<close>.
\<close>

definition INVALID_SOCKET :: int where "INVALID_SOCKET = - 1"

definition INADDR_LOOPBACK :: "32 word" where "INADDR_LOOPBACK = 0x7F000001"

type_synonym sockaddr_in = "32 word"

definition IsRemoteAddress :: "sockaddr_in \<Rightarrow> bool" where
  "IsRemoteAddress addr = (addr \<noteq> INADDR_LOOPBACK)"

record UdpSocket =
  m_socket :: int

definition UdpSocket_init :: UdpSocket where
  "UdpSocket_init = \<lparr>m_socket = INVALID_SOCKET\<rparr>"

definition UdpSocket_Open :: "int option \<Rightarrow> UdpSocket \<Rightarrow> bool \<times> UdpSocket" where
  "UdpSocket_Open os sock =
     (if UdpSocket.m_socket sock \<noteq> INVALID_SOCKET then (True, sock)
      else (case os of
              None \<Rightarrow> (False, sock\<lparr>UdpSocket.m_socket := INVALID_SOCKET\<rparr>)
            | Some h \<Rightarrow>
                if h = INVALID_SOCKET then (False, sock\<lparr>UdpSocket.m_socket := INVALID_SOCKET\<rparr>)
                else (True, sock\<lparr>UdpSocket.m_socket := h\<rparr>)))"

definition UdpSocket_Close :: "UdpSocket \<Rightarrow> UdpSocket" where
  "UdpSocket_Close sock =
     (if UdpSocket.m_socket sock \<noteq> INVALID_SOCKET
      then sock\<lparr>UdpSocket.m_socket := INVALID_SOCKET\<rparr>
      else sock)"

definition IsOpen :: "UdpSocket \<Rightarrow> bool" where
  "IsOpen sock = (UdpSocket.m_socket sock \<noteq> INVALID_SOCKET)"

text \<open>
  One call of \<open>recvfrom\<close> on the non-blocking socket either fails (\<open>SOCKET_ERROR\<close>: an
  error, or nothing pending when the list of pending events is empty) or delivers the
  next datagram with its sender. A datagram longer than the buffer is cut to the
  buffer's size; the bytes of the buffer behind the received ones keep their content.
\<close>

datatype recv_event = RecvError | Datagram "byte list" sockaddr_in

definition recv_size :: "nat \<Rightarrow> byte list \<Rightarrow> nat" where
  "recv_size cap bytes = min (length bytes) cap"

definition recv_into :: "nat \<Rightarrow> byte list \<Rightarrow> byte list \<Rightarrow> byte list" where
  "recv_into cap buffer bytes =
     take (recv_size cap bytes) bytes @ drop (recv_size cap bytes) buffer"

section \<open>Threaded receiver (udp_receiver.cpp)\<close>

text \<open>
  The receiver's atomics are plain fields and \<open>m_thread\<close> is the flag "joinable".
  Arithmetic on \<open>float\<close> bit patterns is not modelled: the getters take the
  subtraction as the parameter \<open>fsub\<close>.

  \<open>Stop\<close> is modelled from the state in which the receiver thread has seen the stop
  flag and ended: between the store to the flag and the end of \<open>join\<close> the thread writes
  only fields that \<open>Stop\<close> overwrites afterwards.
\<close>

record UdpReceiver =
  m_socket :: UdpSocket
  m_thread :: bool
  m_running :: bool
  m_stopFlag :: bool
  m_failed :: bool
  m_trackingData :: TrackingData
  m_yawOffset :: float32
  m_pitchOffset :: float32
  m_rollOffset :: float32
  m_lastReceiveTimestamp :: int
  m_isRemoteConnection :: bool

definition UdpReceiver_init :: UdpReceiver where
  "UdpReceiver_init =
     \<lparr>UdpReceiver.m_socket = UdpSocket_init, m_thread = False, m_running = False,
      m_stopFlag = False, m_failed = False, m_trackingData = TrackingData_init,
      m_yawOffset = 0, m_pitchOffset = 0, m_rollOffset = 0,
      m_lastReceiveTimestamp = 0, m_isRemoteConnection = False\<rparr>"

definition Start :: "int option \<Rightarrow> UdpReceiver \<Rightarrow> bool \<times> UdpReceiver" where
  "Start os s =
     (if m_running s then (True, s)
      else (case UdpSocket_Open os (UdpReceiver.m_socket s) of (ok, sock) \<Rightarrow>
              if \<not> ok then (False, s\<lparr>UdpReceiver.m_socket := sock, m_failed := True\<rparr>)
              else (True, s\<lparr>UdpReceiver.m_socket := sock, m_failed := False,
                             m_stopFlag := False, m_running := True, m_thread := True\<rparr>)))"

definition Stop :: "UdpReceiver \<Rightarrow> UdpReceiver" where
  "Stop s =
     (if \<not> m_running s then s
      else s\<lparr>m_stopFlag := True,
             m_thread := False,
             UdpReceiver.m_socket := UdpSocket_Close (UdpReceiver.m_socket s),
             m_running := False,
             m_trackingData := TrackingData_Reset (m_trackingData s),
             m_yawOffset := 0, m_pitchOffset := 0, m_rollOffset := 0,
             m_lastReceiveTimestamp := 0,
             m_isRemoteConnection := False\<rparr>)"

definition UdpReceiver_GetRotation ::
  "(float32 \<Rightarrow> float32 \<Rightarrow> float32) \<Rightarrow> UdpReceiver \<Rightarrow> (float32 \<times> float32 \<times> float32) option" where
  "UdpReceiver_GetRotation fsub s =
     (case TrackingData_Get (m_trackingData s) of
        None \<Rightarrow> None
      | Some (rawYaw, rawPitch, rawRoll) \<Rightarrow>
          Some (fsub rawYaw (m_yawOffset s), fsub rawPitch (m_pitchOffset s),
                fsub rawRoll (m_rollOffset s)))"

definition UdpReceiver_Recenter :: "UdpReceiver \<Rightarrow> UdpReceiver" where
  "UdpReceiver_Recenter s =
     (case TrackingData_Get (m_trackingData s) of
        None \<Rightarrow> s
      | Some (y, p, r) \<Rightarrow> s\<lparr>m_yawOffset := y, m_pitchOffset := p, m_rollOffset := r\<rparr>)"

text \<open>
  One turn of the receive loop, while the stop flag is clear. \<open>buffer\<close> is the content
  of the thread's 64-byte buffer before the call of \<open>recvfrom\<close>, \<open>pose_us\<close> and
  \<open>now_us\<close> are the two clock readings of the turn.
\<close>

definition kReceiveBufferSize :: nat where "kReceiveBufferSize = 64"

definition ReceiverThread_step ::
  "int \<Rightarrow> int \<Rightarrow> byte list \<Rightarrow> recv_event \<Rightarrow> UdpReceiver \<Rightarrow> UdpReceiver" where
  "ReceiverThread_step pose_us now_us buffer ev s =
     (case ev of
        RecvError \<Rightarrow> s
      | Datagram bytes senderAddr \<Rightarrow>
          let bytesReceived = recv_size kReceiveBufferSize bytes;
              buffer' = recv_into kReceiveBufferSize buffer bytes
          in if bytesReceived \<ge> kMinPacketSize
             then (case TryParse pose_us (Some buffer') bytesReceived TrackingPose_default of
                     (ok, pose) \<Rightarrow>
                       if ok
                       then s\<lparr>m_trackingData :=
                                TrackingData_Set (m_trackingData s) (yaw pose) (pitch pose) (roll pose),
                              m_isRemoteConnection := IsRemoteAddress senderAddr,
                              m_lastReceiveTimestamp := now_us\<rparr>
                       else s)
             else s)"

section \<open>Polling receiver (polling_udp_receiver.cpp)\<close>

text \<open>
  The unqualified field names from here on are those of the polling receiver. The
  statistics are \<open>uint64_t\<close> counters, 64-bit words that wrap around.
\<close>

record PollingUdpReceiver =
  m_socket :: UdpSocket
  m_initialized :: bool
  m_yaw :: float32
  m_pitch :: float32
  m_roll :: float32
  m_hasData :: bool
  m_yawOffset :: float32
  m_pitchOffset :: float32
  m_rollOffset :: float32
  m_hasOffset :: bool
  m_lastReceiveTimeMs :: int
  m_isRemoteConnection :: bool
  m_packetsReceived :: "64 word"
  m_bytesReceived :: "64 word"
  m_receiveBuffer :: "byte list"

definition kMaxBufferSize :: nat where "kMaxBufferSize = 256"

definition kMaxPacketsPerFrame :: nat where "kMaxPacketsPerFrame = 1000"

text \<open>
  A receiver as constructed; the receive buffer has no initialiser, its content
  \<open>buffer\<close> is whatever the memory holds.
\<close>

definition PollingUdpReceiver_init :: "byte list \<Rightarrow> PollingUdpReceiver" where
  "PollingUdpReceiver_init buffer =
     \<lparr>m_socket = UdpSocket_init, m_initialized = False,
      m_yaw = 0, m_pitch = 0, m_roll = 0, m_hasData = False,
      m_yawOffset = 0, m_pitchOffset = 0, m_rollOffset = 0, m_hasOffset = False,
      m_lastReceiveTimeMs = 0, m_isRemoteConnection = False,
      m_packetsReceived = 0, m_bytesReceived = 0,
      m_receiveBuffer = buffer\<rparr>"

definition Initialize :: "int option \<Rightarrow> PollingUdpReceiver \<Rightarrow> bool \<times> PollingUdpReceiver" where
  "Initialize os s =
     (if m_initialized s then (True, s)
      else (case UdpSocket_Open os (m_socket s) of (ok, sock) \<Rightarrow>
              if \<not> ok then (False, s\<lparr>m_socket := sock\<rparr>)
              else (True, s\<lparr>m_socket := sock,
                             m_initialized := True,
                             m_lastReceiveTimeMs := 0,
                             m_packetsReceived := 0,
                             m_bytesReceived := 0,
                             m_isRemoteConnection := False,
                             m_hasData := False,
                             m_hasOffset := False,
                             m_receiveBuffer := replicate kMaxBufferSize 0\<rparr>)))"

definition Shutdown :: "PollingUdpReceiver \<Rightarrow> PollingUdpReceiver" where
  "Shutdown s =
     (if \<not> m_initialized s then s
      else s\<lparr>m_socket := UdpSocket_Close (m_socket s), m_initialized := False\<rparr>)"

definition ParsePacket :: "int \<Rightarrow> PollingUdpReceiver \<Rightarrow> nat \<Rightarrow> bool \<times> PollingUdpReceiver" where
  "ParsePacket pose_us s bytesReceived =
     (case TryParse pose_us (Some (m_receiveBuffer s)) bytesReceived TrackingPose_default of
        (ok, pose) \<Rightarrow>
          if \<not> ok then (False, s)
          else (True, s\<lparr>m_yaw := yaw pose, m_pitch := pitch pose, m_roll := roll pose,
                         m_hasData := True\<rparr>))"

text \<open>
  The drain loop of \<open>Poll\<close>: \<open>q\<close> is what the following calls of \<open>recvfrom\<close> will
  deliver, and the loop returns the flag \<open>receivedAny\<close>, the receiver, and the events it
  did not consume. \<open>pose_us\<close> is the clock reading stamped on the parsed poses; the loop
  drops it with the pose.
\<close>

fun Poll_loop ::
  "int \<Rightarrow> recv_event list \<Rightarrow> nat \<Rightarrow> bool \<Rightarrow> PollingUdpReceiver
     \<Rightarrow> bool \<times> PollingUdpReceiver \<times> recv_event list" where
  "Poll_loop pose_us q packetsThisFrame receivedAny s =
     (if packetsThisFrame < kMaxPacketsPerFrame then
        (case q of
           [] \<Rightarrow> (receivedAny, s, [])
         | RecvError # q' \<Rightarrow> (receivedAny, s, q')
         | Datagram bytes senderAddr # q' \<Rightarrow>
             let bytesReceived = recv_size kMaxBufferSize bytes;
                 s1 = s\<lparr>m_receiveBuffer := recv_into kMaxBufferSize (m_receiveBuffer s) bytes\<rparr>
             in if bytesReceived = 0 then (receivedAny, s1, q')
                else (case ParsePacket pose_us s1 bytesReceived of
                        (ok, s2) \<Rightarrow>
                          if ok
                          then Poll_loop pose_us q' (packetsThisFrame + 1) True
                                 (s2\<lparr>m_packetsReceived := m_packetsReceived s2 + 1,
                                     m_bytesReceived := m_bytesReceived s2 + of_nat bytesReceived,
                                     m_isRemoteConnection := IsRemoteAddress senderAddr\<rparr>)
                          else Poll_loop pose_us q' (packetsThisFrame + 1) receivedAny s2))
      else (receivedAny, s, q))"

definition Poll ::
  "int \<Rightarrow> int \<Rightarrow> recv_event list \<Rightarrow> PollingUdpReceiver
     \<Rightarrow> bool \<times> PollingUdpReceiver \<times> recv_event list" where
  "Poll pose_us now_ms q s =
     (if \<not> m_initialized s \<or> \<not> IsOpen (m_socket s) then (False, s, q)
      else (case Poll_loop pose_us q 0 False s of
              (receivedAny, s', q') \<Rightarrow>
                (receivedAny,
                 if receivedAny then s'\<lparr>m_lastReceiveTimeMs := now_ms\<rparr> else s',
                 q')))"

definition GetPose ::
  "(float32 \<Rightarrow> float32 \<Rightarrow> float32) \<Rightarrow> int \<Rightarrow> PollingUdpReceiver \<Rightarrow> float32 TrackingPose option" where
  "GetPose fsub now s =
     (if \<not> m_hasData s then None
      else (let y = m_yaw s; p = m_pitch s; r = m_roll s
            in if m_hasOffset s
               then Some (TrackingPose_now now (fsub y (m_yawOffset s)) (fsub p (m_pitchOffset s))
                            (fsub r (m_rollOffset s)))
               else Some (TrackingPose_now now y p r)))"

definition GetRawRotation :: "PollingUdpReceiver \<Rightarrow> (float32 \<times> float32 \<times> float32) option" where
  "GetRawRotation s =
     (if \<not> m_hasData s then None else Some (m_yaw s, m_pitch s, m_roll s))"

definition GetRotation ::
  "(float32 \<Rightarrow> float32 \<Rightarrow> float32) \<Rightarrow> PollingUdpReceiver \<Rightarrow> (float32 \<times> float32 \<times> float32) option" where
  "GetRotation fsub s =
     (if \<not> m_hasData s then None
      else if m_hasOffset s
           then Some (fsub (m_yaw s) (m_yawOffset s), fsub (m_pitch s) (m_pitchOffset s),
                      fsub (m_roll s) (m_rollOffset s))
           else Some (m_yaw s, m_pitch s, m_roll s))"

definition PollingUdpReceiver_Recenter :: "PollingUdpReceiver \<Rightarrow> PollingUdpReceiver" where
  "PollingUdpReceiver_Recenter s =
     (if m_hasData s
      then s\<lparr>m_yawOffset := m_yaw s, m_pitchOffset := m_pitch s, m_rollOffset := m_roll s,
             m_hasOffset := True\<rparr>
      else s)"

definition ResetOffset :: "PollingUdpReceiver \<Rightarrow> PollingUdpReceiver" where
  "ResetOffset s =
     s\<lparr>m_yawOffset := 0, m_pitchOffset := 0, m_rollOffset := 0, m_hasOffset := False\<rparr>"

section \<open>One call of Poll, in the words of the specification\<close>

text \<open>
  The notions the statements about \<open>Poll\<close> use. The datagrams one call hands to the
  parser are the pending events up to the first failure of \<open>recvfrom\<close> or empty datagram,
  and at most \<open>kMaxPacketsPerFrame\<close> of them. A datagram parses successfully when
  \<open>TryParse\<close> accepts its received bytes; \<open>datagram_parse\<close> is that call of the
  parser on the received bytes alone, from a default pose and at clock reading 0, and
  \<open>datagram_size\<close> the number of bytes received. \<open>commit\<close> is what the specification
  lets one successfully parsed datagram do: it overwrites the latest pose, sets the
  has-data flag and the remote flag and advances both counters.
\<close>

definition datagram_nonempty :: "recv_event \<Rightarrow> bool" where
  "datagram_nonempty e =
     (case e of RecvError \<Rightarrow> False | Datagram bytes a \<Rightarrow> recv_size kMaxBufferSize bytes \<noteq> 0)"

definition poll_delivered :: "recv_event list \<Rightarrow> recv_event list" where
  "poll_delivered q = take kMaxPacketsPerFrame (takeWhile datagram_nonempty q)"

definition datagram_parse :: "recv_event \<Rightarrow> bool \<times> float32 TrackingPose" where
  "datagram_parse e =
     (case e of
        RecvError \<Rightarrow> (False, TrackingPose_default)
      | Datagram bytes a \<Rightarrow>
          TryParse 0 (Some (take kMaxBufferSize bytes)) (recv_size kMaxBufferSize bytes)
            TrackingPose_default)"

definition datagram_valid :: "recv_event \<Rightarrow> bool" where
  "datagram_valid e = fst (datagram_parse e)"

definition datagram_size :: "recv_event \<Rightarrow> nat" where
  "datagram_size e = (case e of RecvError \<Rightarrow> 0 | Datagram bytes a \<Rightarrow> recv_size kMaxBufferSize bytes)"

definition datagram_remote :: "recv_event \<Rightarrow> bool" where
  "datagram_remote e = (case e of RecvError \<Rightarrow> False | Datagram bytes a \<Rightarrow> IsRemoteAddress a)"

definition commit :: "PollingUdpReceiver \<Rightarrow> recv_event \<Rightarrow> PollingUdpReceiver" where
  "commit s e =
     s\<lparr>m_yaw := yaw (snd (datagram_parse e)),
       m_pitch := pitch (snd (datagram_parse e)),
       m_roll := roll (snd (datagram_parse e)),
       m_hasData := True,
       m_packetsReceived := m_packetsReceived s + 1,
       m_bytesReceived := m_bytesReceived s + of_nat (datagram_size e),
       m_isRemoteConnection := datagram_remote e\<rparr>"

text \<open>
  Sample data: the sample datagram with yaw and pitch exchanged, a receiver initialised
  on a fresh socket with handle 3, and a burst of pending events that mixes valid
  datagrams from a remote and the loopback address with a NaN datagram, a three-byte
  datagram and a receive error.
\<close>

definition example_packet2 :: "byte list" where
  "example_packet2 =
     replicate 24 0 @ [0, 0, 0, 0, 0, 0, 0x14, 0xC0] @ [0, 0, 0, 0, 0, 0, 0x24, 0x40]
       @ [0, 0, 0, 0, 0, 0, 0, 0]"

definition sample_receiver :: PollingUdpReceiver where
  "sample_receiver = snd (Initialize (Some 3) (PollingUdpReceiver_init []))"

definition sample_burst :: "recv_event list" where
  "sample_burst =
     [Datagram example_packet 0xC0A80001, Datagram nan_packet 0xC0A80001,
      Datagram [1, 2, 3] 0x7F000001, Datagram example_packet2 0x7F000001,
      RecvError, Datagram example_packet 0xC0A80001]"

section \<open>States of the threaded receiver\<close>

text \<open>
  The states a threaded receiver can be in: it is constructed, and then \<open>Start\<close>,
  \<open>Stop\<close> and \<open>Recenter\<close> are called in any order, while the receiver thread, which
  exists only from a successful \<open>Start\<close> to the \<open>join\<close> in \<open>Stop\<close>, takes turns of its
  loop. \<open>published_defaults\<close> says that the published pose, the offsets, the
  last-receive timestamp and the remote flag have their initial values. Every operation
  is one step: a reader's call that overlaps \<open>Stop\<close> in time is outside this
  description. The sample receiver has been started on handle 3, has received the sample
  datagram from a remote address and has been recentred.
\<close>

inductive UdpReceiver_reachable :: "UdpReceiver \<Rightarrow> bool" where
  constructed: "UdpReceiver_reachable UdpReceiver_init"
| started: "UdpReceiver_reachable r \<Longrightarrow> UdpReceiver_reachable (snd (Start os r))"
| stopped: "UdpReceiver_reachable r \<Longrightarrow> UdpReceiver_reachable (Stop r)"
| received:
    "UdpReceiver_reachable r \<Longrightarrow> m_running r \<Longrightarrow>
     UdpReceiver_reachable (ReceiverThread_step pose_us now_us buffer ev r)"
| recentered: "UdpReceiver_reachable r \<Longrightarrow> UdpReceiver_reachable (UdpReceiver_Recenter r)"

definition published_defaults :: "UdpReceiver \<Rightarrow> bool" where
  "published_defaults r =
     (TrackingData.yaw (m_trackingData r) = 0
      \<and> TrackingData.pitch (m_trackingData r) = 0
      \<and> TrackingData.roll (m_trackingData r) = 0
      \<and> \<not> has_data (m_trackingData r)
      \<and> UdpReceiver.m_yawOffset r = 0
      \<and> UdpReceiver.m_pitchOffset r = 0
      \<and> UdpReceiver.m_rollOffset r = 0
      \<and> m_lastReceiveTimestamp r = 0
      \<and> \<not> UdpReceiver.m_isRemoteConnection r)"

definition sample_udp_receiver :: UdpReceiver where
  "sample_udp_receiver =
     UdpReceiver_Recenter
       (ReceiverThread_step 5 6 (replicate 64 0) (Datagram example_packet 0xC0A80001)
          (snd (Start (Some 3) UdpReceiver_init)))"

section \<open>Properties of the math utilities\<close>

lemma ApplyDeadzone_max_min:
  "0 < t \<Longrightarrow> ApplyDeadzone v t = max 0 (v - t) + min 0 (v + t)"
  by (auto simp: ApplyDeadzone_def Let_def)

lemma ApplyDeadzone_continuous:
  assumes "0 < t" shows "continuous_on UNIV (\<lambda>v. ApplyDeadzone v t)"
proof -
  have eq: "\<And>v. ApplyDeadzone v t = max 0 (v - t) + min 0 (v + t)"
    using assms by (rule ApplyDeadzone_max_min)
  show ?thesis unfolding eq by (intro continuous_intros)
qed

lemma ApplyDeadzone_tendsto:
  assumes "0 < t"
  shows "((\<lambda>v. ApplyDeadzone v t) \<longlongrightarrow> ApplyDeadzone a t) (at a within S)"
proof -
  have "isCont (\<lambda>v. ApplyDeadzone v t) a"
    using ApplyDeadzone_continuous[OF assms] by (simp add: continuous_on_eq_continuous_at)
  then have "((\<lambda>v. ApplyDeadzone v t) \<longlongrightarrow> ApplyDeadzone a t) (at a)"
    by (simp add: isCont_def)
  then show ?thesis by (rule tendsto_within_subset) simp
qed

text \<open>
  C6. For every value \<open>v\<close> and every threshold \<open>t > 0\<close>, \<open>ApplyDeadzone v t\<close> is \<open>0\<close>
  when \<open>\<bar>v\<bar> \<le> t\<close> and \<open>sgn v * (\<bar>v\<bar> - t)\<close> when \<open>\<bar>v\<bar> > t\<close>. With threshold 2 it maps
  1 to 0, 3 to 1 and -3 to -1. The value at \<open>\<bar>v\<bar> = t\<close> is 0 and equals the limit from
  outside the deadzone (from the right at \<open>t\<close>, from the left at \<open>-t\<close>); the function is
  continuous everywhere.
\<close>

theorem ApplyDeadzone_spec:
  assumes "0 < t"
  shows "(\<bar>v\<bar> \<le> t \<longrightarrow> ApplyDeadzone v t = 0)
       \<and> (\<bar>v\<bar> > t \<longrightarrow> ApplyDeadzone v t = sgn v * (\<bar>v\<bar> - t))
       \<and> ApplyDeadzone 1 2 = 0 \<and> ApplyDeadzone 3 2 = 1 \<and> ApplyDeadzone (- 3) 2 = - 1
       \<and> ApplyDeadzone t t = 0 \<and> ApplyDeadzone (- t) t = 0
       \<and> ((\<lambda>x. ApplyDeadzone x t) \<longlongrightarrow> 0) (at_right t)
       \<and> ((\<lambda>x. ApplyDeadzone x t) \<longlongrightarrow> 0) (at_left (- t))
       \<and> continuous_on UNIV (\<lambda>x. ApplyDeadzone x t)"
proof -
  have b: "ApplyDeadzone t t = 0" "ApplyDeadzone (- t) t = 0"
    using assms by (simp_all add: ApplyDeadzone_def)
  have "((\<lambda>x. ApplyDeadzone x t) \<longlongrightarrow> 0) (at_right t)"
    using ApplyDeadzone_tendsto[OF assms, of t "{t<..}"] b by simp
  moreover have "((\<lambda>x. ApplyDeadzone x t) \<longlongrightarrow> 0) (at_left (- t))"
    using ApplyDeadzone_tendsto[OF assms, of "- t" "{..< - t}"] b by simp
  moreover have "\<bar>v\<bar> \<le> t \<longrightarrow> ApplyDeadzone v t = 0"
    using assms by (simp add: ApplyDeadzone_def)
  moreover have "\<bar>v\<bar> > t \<longrightarrow> ApplyDeadzone v t = sgn v * (\<bar>v\<bar> - t)"
    using assms by (auto simp: ApplyDeadzone_def Let_def sgn_real_def)
  moreover have "ApplyDeadzone 1 2 = 0 \<and> ApplyDeadzone 3 2 = 1 \<and> ApplyDeadzone (- 3) 2 = - 1"
    by (simp add: ApplyDeadzone_def)
  ultimately show ?thesis
    using b ApplyDeadzone_continuous[OF assms] by blast
qed

theorem ApplyDeadzone_spec_witness:
  "(0::real) < 2
   \<and> ApplyDeadzone 2 2 = 0 \<and> ApplyDeadzone (5 / 2) 2 = 1 / 2 \<and> ApplyDeadzone (- 7) 2 = - 5
   \<and> ((\<lambda>x. ApplyDeadzone x 2) \<longlongrightarrow> 0) (at_right 2)"
proof -
  have h: "(0::real) < 2" by simp
  from ApplyDeadzone_spec[OF h, of 2] ApplyDeadzone_spec[OF h, of "5 / 2"]
       ApplyDeadzone_spec[OF h, of "- 7"]
  show ?thesis by (simp add: sgn_real_def)
qed

lemma Lerp_speed_pos: "s < 1 \<Longrightarrow> 0 < Lerp 50 (1 / 10) s"
  by (simp add: Lerp_def)

lemma CalculateSmoothingFactor_mono:
  assumes "s < 1" "dt1 \<le> dt2"
  shows "CalculateSmoothingFactor s dt1 \<le> CalculateSmoothingFactor s dt2"
proof -
  have "0 < Lerp 50 (1 / 10) s" using assms by (simp add: Lerp_speed_pos)
  then have "Lerp 50 (1 / 10) s * dt1 \<le> Lerp 50 (1 / 10) s * dt2" using assms by simp
  then show ?thesis by (simp add: CalculateSmoothingFactor_def Let_def)
qed

lemma CalculateSmoothingFactor_tendsto:
  assumes "s < 1"
  shows "((\<lambda>dt. CalculateSmoothingFactor s dt) \<longlongrightarrow> 1) at_top"
proof (cases "s < 1 / 1000")
  case True
  then show ?thesis by (simp add: CalculateSmoothingFactor_def)
next
  case False
  define k where "k = Lerp 50 (1 / 10) s"
  have k: "0 < k" using assms by (simp add: k_def Lerp_speed_pos)
  have "filterlim (\<lambda>dt. - (k * dt)) at_bot at_top"
    using k by (simp add: filterlim_uminus_at_bot
        filterlim_tendsto_pos_mult_at_top[OF tendsto_const _ filterlim_ident])
  then have "((\<lambda>dt. exp (- (k * dt))) \<longlongrightarrow> 0) at_top"
    by (rule filterlim_compose[OF exp_at_bot])
  then have "((\<lambda>dt. 1 - exp (- (k * dt))) \<longlongrightarrow> 1 - 0) at_top"
    by (intro tendsto_diff tendsto_const)
  then show ?thesis using False by (simp add: CalculateSmoothingFactor_def Let_def k_def)
qed

text \<open>
  C7, as the code has it. \<open>CalculateSmoothingFactor s dt\<close> is 1 for every \<open>dt\<close> whenever
  \<open>s < 0.001\<close>, and \<open>1 - exp (- Lerp 50 0.1 s * dt)\<close> otherwise. For every fixed \<open>s\<close> in
  \<open>(0, 1)\<close> it never decreases when \<open>dt\<close> grows, and it tends to 1 as \<open>dt\<close> grows without
  bound. No strict increase is stated: below the bypass threshold the factor is constant,
  and above it the \<open>double\<close> result is the same for neighbouring values of \<open>dt\<close> once it has
  reached 0 or 1.
\<close>

theorem CalculateSmoothingFactor_spec:
  "(s < 1 / 1000 \<longrightarrow> CalculateSmoothingFactor s dt = 1)
   \<and> (1 / 1000 \<le> s \<longrightarrow>
        CalculateSmoothingFactor s dt = 1 - exp (- Lerp 50 (1 / 10) s * dt))
   \<and> (0 < s \<and> s < 1 \<and> dt1 \<le> dt2 \<longrightarrow>
        CalculateSmoothingFactor s dt1 \<le> CalculateSmoothingFactor s dt2)
   \<and> (0 < s \<and> s < 1 \<longrightarrow> ((\<lambda>d. CalculateSmoothingFactor s d) \<longlongrightarrow> 1) at_top)"
proof -
  have "s < 1 / 1000 \<longrightarrow> CalculateSmoothingFactor s dt = 1"
    by (simp add: CalculateSmoothingFactor_def)
  moreover have "1 / 1000 \<le> s \<longrightarrow>
      CalculateSmoothingFactor s dt = 1 - exp (- Lerp 50 (1 / 10) s * dt)"
    by (simp add: CalculateSmoothingFactor_def Let_def)
  moreover have "0 < s \<and> s < 1 \<and> dt1 \<le> dt2 \<longrightarrow>
      CalculateSmoothingFactor s dt1 \<le> CalculateSmoothingFactor s dt2"
    using CalculateSmoothingFactor_mono[of s dt1 dt2] by blast
  moreover have "0 < s \<and> s < 1 \<longrightarrow>
      ((\<lambda>d. CalculateSmoothingFactor s d) \<longlongrightarrow> 1) at_top"
    using CalculateSmoothingFactor_tendsto[of s] by blast
  ultimately show ?thesis by blast
qed

theorem CalculateSmoothingFactor_spec_witness:
  "CalculateSmoothingFactor (1 / 2000) 7 = 1
   \<and> CalculateSmoothingFactor (1 / 2) 0 = 0
   \<and> CalculateSmoothingFactor (1 / 2) 0 \<le> CalculateSmoothingFactor (1 / 2) 1
   \<and> CalculateSmoothingFactor (1 / 2000) 1 \<le> CalculateSmoothingFactor (1 / 2000) 2
   \<and> ((\<lambda>d. CalculateSmoothingFactor (1 / 2) d) \<longlongrightarrow> 1) at_top"
  using CalculateSmoothingFactor_spec[of "1 / 2000" 7 1 2]
        CalculateSmoothingFactor_spec[of "1 / 2" 0 0 1]
  by simp

text \<open>
  C7 as stated fails below the bypass threshold: \<open>s = 0.0005\<close> lies in \<open>(0, 1)\<close>, and
  the factor is the constant 1 there, so it does not increase from \<open>dt = 1\<close> to \<open>dt = 2\<close>.
\<close>

theorem CalculateSmoothingFactor_not_increasing_below_bypass:
  "(0::real) < 1 / 2000 \<and> (1::real) / 2000 < 1 \<and> (1::real) < 2
   \<and> \<not> CalculateSmoothingFactor (1 / 2000) 1 < CalculateSmoothingFactor (1 / 2000) 2"
  by (simp add: CalculateSmoothingFactor_def)

text \<open>
  C8. \<open>GetEffectiveSmoothing s True\<close> is 0.15 when \<open>s < 0.15\<close> and \<open>s\<close> otherwise;
  \<open>GetEffectiveSmoothing s False\<close> is \<open>s\<close>. In particular (0.05, remote) gives 0.15,
  (0.2, remote) gives 0.2 and (0.05, local) gives 0.05. The floor is applied to the value
  of the call only: \<open>Process\<close> leaves the stored smoothing configuration as it was.
\<close>

theorem GetEffectiveSmoothing_spec:
  "(s < 15 / 100 \<longrightarrow> GetEffectiveSmoothing s True = 15 / 100)
   \<and> (\<not> s < 15 / 100 \<longrightarrow> GetEffectiveSmoothing s True = s)
   \<and> GetEffectiveSmoothing s False = s
   \<and> GetEffectiveSmoothing (5 / 100) True = 15 / 100
   \<and> GetEffectiveSmoothing (2 / 10) True = 2 / 10
   \<and> GetEffectiveSmoothing (5 / 100) False = 5 / 100
   \<and> m_smoothingFactor (snd (Process now proc y p r remote dt)) = m_smoothingFactor proc"
  by (simp add: GetEffectiveSmoothing_def kRemoteConnectionBaseline_def Process_def Let_def
      split: prod.split)

theorem GetEffectiveSmoothing_spec_witness:
  "GetEffectiveSmoothing (1 / 10) True = 15 / 100
   \<and> GetEffectiveSmoothing (3 / 10) True = 3 / 10
   \<and> GetEffectiveSmoothing (1 / 10) False = 1 / 10
   \<and> m_smoothingFactor
        (snd (Process 1 (SetSmoothing TrackingProcessor_init (5 / 100)) 10 0 0 True (1 / 60)))
      = 5 / 100"
  using GetEffectiveSmoothing_spec[of "1 / 10" 1 "SetSmoothing TrackingProcessor_init (5 / 100)"
          10 0 0 True "1 / 60"]
        GetEffectiveSmoothing_spec[of "3 / 10"]
  by (simp add: SetSmoothing_def TrackingProcessor_init_def)

section \<open>Properties of the tracking processor\<close>









text \<open>
  C9. \<open>Recenter\<close> changes only the center manager, whose center becomes the current
  smoothed values; the smoothed accumulator and the has-smoothed-value flag are
  unchanged. \<open>RecenterTo\<close> sets the given center and zeroes the three accumulator
  components, leaving the flag. \<open>Reset\<close> clears the center, zeroes the accumulator and
  clears the flag, so that the next \<open>Process\<close> call snaps the accumulator to the deadzoned
  raw sample.
\<close>

theorem Recenter_RecenterTo_Reset_frame:
  "Recenter s = s\<lparr>m_centerManager := m_centerManager (Recenter s)\<rparr>
   \<and> m_hasValidCenter (m_centerManager (Recenter s))
   \<and> yaw (m_centerOffset (m_centerManager (Recenter s))) = m_smoothedYaw s
   \<and> pitch (m_centerOffset (m_centerManager (Recenter s))) = m_smoothedPitch s
   \<and> roll (m_centerOffset (m_centerManager (Recenter s))) = m_smoothedRoll s
   \<and> m_smoothedYaw (Recenter s) = m_smoothedYaw s
   \<and> m_smoothedPitch (Recenter s) = m_smoothedPitch s
   \<and> m_smoothedRoll (Recenter s) = m_smoothedRoll s
   \<and> m_hasSmoothedValue (Recenter s) = m_hasSmoothedValue s
   \<and> RecenterTo s y p r =
        s\<lparr>m_centerManager := m_centerManager (RecenterTo s y p r),
          m_smoothedYaw := 0, m_smoothedPitch := 0, m_smoothedRoll := 0\<rparr>
   \<and> m_hasValidCenter (m_centerManager (RecenterTo s y p r))
   \<and> yaw (m_centerOffset (m_centerManager (RecenterTo s y p r))) = y
   \<and> pitch (m_centerOffset (m_centerManager (RecenterTo s y p r))) = p
   \<and> roll (m_centerOffset (m_centerManager (RecenterTo s y p r))) = r
   \<and> m_hasSmoothedValue (RecenterTo s y p r) = m_hasSmoothedValue s
   \<and> Reset s =
        s\<lparr>m_centerManager := m_centerManager (Reset s),
          m_smoothedYaw := 0, m_smoothedPitch := 0, m_smoothedRoll := 0,
          m_hasSmoothedValue := False\<rparr>
   \<and> \<not> m_hasValidCenter (m_centerManager (Reset s))
   \<and> m_centerOffset (m_centerManager (Reset s)) = TrackingPose_default
   \<and> m_smoothedYaw (snd (Process now (Reset s) y p r remote dt))
        = ApplyDeadzone y (DeadzoneSettings.yaw (m_deadzone s))
   \<and> m_smoothedPitch (snd (Process now (Reset s) y p r remote dt))
        = ApplyDeadzone p (DeadzoneSettings.pitch (m_deadzone s))
   \<and> m_smoothedRoll (snd (Process now (Reset s) y p r remote dt))
        = ApplyDeadzone r (DeadzoneSettings.roll (m_deadzone s))"
  by (simp add: Recenter_def RecenterTo_def Reset_def SetCenter_def CenterOffsetManager_Reset_def
      TrackingPose_ts_def Process_def Let_def ApplyOffset_def)

section \<open>Properties of the wire codec\<close>

lemma nonfinite_iff_exponent: "(std_isnan d \<or> std_isinf d) = (double_exponent d = 2047)"
  by (auto simp: std_isnan_def std_isinf_def)

lemma load_double_example_packet:
  "load_double example_packet 24 = 0x4024000000000000"
  "load_double example_packet 32 = 0xC014000000000000"
  "load_double example_packet 40 = 0"
  by (simp_all add: example_packet_def load_double_def le_word64_def)

lemma load_double_nan_packet: "load_double nan_packet 24 = 0x7FF8000000000000"
  by (simp add: nan_packet_def load_double_def le_word64_def)

lemma double_to_float_examples:
  "double_to_float 0x4024000000000000 = 0x41200000"
  "double_to_float 0xC014000000000000 = 0xC0A00000"
  "double_to_float 0 = 0"
  by (simp_all add: double_to_float_def float_magnitude_def round_shift_def
      double_exponent_def double_fraction_def)

lemma finite_examples:
  "\<not> std_isnan 0x4024000000000000" "\<not> std_isinf 0x4024000000000000"
  "\<not> std_isnan 0xC014000000000000" "\<not> std_isinf 0xC014000000000000"
  "\<not> std_isnan 0" "\<not> std_isinf 0"
  "std_isnan 0x7FF8000000000000"
  by (simp_all add: std_isnan_def std_isinf_def double_exponent_def double_fraction_def)

text \<open>
  C1. For every buffer of which \<open>len\<close> bytes are readable, \<open>TryParse\<close> fails exactly
  when \<open>len < 48\<close> or one of the three doubles read at the byte offsets 24, 32 and 40 is
  NaN or infinite. On every success the pose holds the three doubles narrowed to single
  precision, and its timestamp, the reading of the monotonic clock at the call, is not
  zero; the reading counts the microseconds since the clock's epoch and is taken to be
  nonzero. The sample datagram parses to the single-precision values 10.0
  (\<open>0x41200000\<close>), -5.0 (\<open>0xC0A00000\<close>) and 0.0. The null pointer is no buffer; for it
  the call fails whatever the length.
\<close>

theorem TryParse_spec:
  assumes "len \<le> length bytes" and "now \<noteq> 0"
  shows "((\<not> fst (TryParse now (Some bytes) len pose)) =
            (len < 48
             \<or> std_isnan (load_double bytes 24) \<or> std_isinf (load_double bytes 24)
             \<or> std_isnan (load_double bytes 32) \<or> std_isinf (load_double bytes 32)
             \<or> std_isnan (load_double bytes 40) \<or> std_isinf (load_double bytes 40)))
       \<and> (fst (TryParse now (Some bytes) len pose) \<longrightarrow>
            snd (TryParse now (Some bytes) len pose) =
              \<lparr>yaw = double_to_float (load_double bytes 24),
               pitch = double_to_float (load_double bytes 32),
               roll = double_to_float (load_double bytes 40),
               timestamp_us = now\<rparr>
          \<and> timestamp_us (snd (TryParse now (Some bytes) len pose)) \<noteq> 0
          \<and> IsValid (snd (TryParse now (Some bytes) len pose)))
       \<and> TryParse now (Some example_packet) 48 pose =
            (True, \<lparr>yaw = 0x41200000, pitch = 0xC0A00000, roll = 0, timestamp_us = now\<rparr>)
       \<and> \<not> fst (TryParse now None n pose)"
  using assms(2)
  by (simp add: TryParse_def Let_def kMinPacketSize_def kYawOffset_def kPitchOffset_def
      kRollOffset_def TrackingPose_now_def IsValid_def load_double_example_packet
      double_to_float_examples finite_examples)

theorem TryParse_spec_witness:
  "(48::nat) \<le> length example_packet \<and> (77::int) \<noteq> 0
   \<and> fst (TryParse 77 (Some example_packet) 48 TrackingPose_default)
   \<and> snd (TryParse 77 (Some example_packet) 48 TrackingPose_default) =
        \<lparr>yaw = 0x41200000, pitch = 0xC0A00000, roll = 0, timestamp_us = 77\<rparr>
   \<and> timestamp_us (snd (TryParse 77 (Some example_packet) 48 TrackingPose_default)) \<noteq> 0
   \<and> IsValid (snd (TryParse 77 (Some example_packet) 48 TrackingPose_default))
   \<and> \<not> fst (TryParse 77 (Some example_packet) 47 TrackingPose_default)
   \<and> (48::nat) \<le> length nan_packet
   \<and> \<not> fst (TryParse 77 (Some nan_packet) 48 TrackingPose_default)"
proof -
  have a: "(48::nat) \<le> length example_packet" by (simp add: example_packet_def)
  have b: "(47::nat) \<le> length example_packet" by (simp add: example_packet_def)
  have c: "(48::nat) \<le> length nan_packet" by (simp add: nan_packet_def)
  have h: "(77::int) \<noteq> 0" by simp
  from TryParse_spec[OF a h, of TrackingPose_default 0]
       TryParse_spec[OF b h, of TrackingPose_default 0]
       TryParse_spec[OF c h, of TrackingPose_default 0] a c
  show ?thesis
    by (simp add: load_double_example_packet load_double_nan_packet double_to_float_examples
        finite_examples)
qed

text \<open>
  C10. Whenever \<open>TryParse\<close> returns false, for every length and buffer and also for the
  null pointer, the pose behind the output reference is what it was before the call.
\<close>

theorem TryParse_failure_keeps_pose:
  assumes "\<not> fst (TryParse now data len pose)"
  shows "snd (TryParse now data len pose) = pose"
  using assms by (auto simp: TryParse_def Let_def split: if_splits)

theorem TryParse_failure_keeps_pose_witness:
  "snd (TryParse 77 None 100 \<lparr>yaw = 1, pitch = 2, roll = 3, timestamp_us = 4\<rparr>)
     = \<lparr>yaw = 1, pitch = 2, roll = 3, timestamp_us = 4\<rparr>
   \<and> snd (TryParse 77 (Some example_packet) 47 \<lparr>yaw = 1, pitch = 2, roll = 3, timestamp_us = 4\<rparr>)
     = \<lparr>yaw = 1, pitch = 2, roll = 3, timestamp_us = 4\<rparr>
   \<and> snd (TryParse 77 (Some nan_packet) 48 \<lparr>yaw = 1, pitch = 2, roll = 3, timestamp_us = 4\<rparr>)
     = \<lparr>yaw = 1, pitch = 2, roll = 3, timestamp_us = 4\<rparr>"
proof -
  have a: "\<not> fst (TryParse 77 None 100 \<lparr>yaw = 1, pitch = 2, roll = 3, timestamp_us = 4\<rparr>)"
    by (simp add: TryParse_def)
  have b: "\<not> fst (TryParse 77 (Some example_packet) 47
                  \<lparr>yaw = 1, pitch = 2, roll = 3, timestamp_us = 4\<rparr>)"
    by (simp add: TryParse_def kMinPacketSize_def)
  have c: "\<not> fst (TryParse 77 (Some nan_packet) 48
                  \<lparr>yaw = 1, pitch = 2, roll = 3, timestamp_us = 4\<rparr>)"
    by (simp add: TryParse_def Let_def kMinPacketSize_def kYawOffset_def load_double_nan_packet
        finite_examples)
  from TryParse_failure_keeps_pose[OF a] TryParse_failure_keeps_pose[OF b]
       TryParse_failure_keeps_pose[OF c]
  show ?thesis by simp
qed

section \<open>Properties of the polling receiver\<close>

lemma load_double_append:
  "off + 8 \<le> length xs \<Longrightarrow> load_double (xs @ ys) off = load_double xs off"
  by (simp add: load_double_def)

lemma TryParse_buffer_tail:
  assumes "len \<le> length xs"
  shows "TryParse now (Some (xs @ ys)) len pose = TryParse now (Some xs) len pose"
  using assms
  by (simp add: TryParse_def Let_def kMinPacketSize_def kYawOffset_def kPitchOffset_def
      kRollOffset_def load_double_append)

lemma TryParse_clock:
  "fst (TryParse now data len pose) = fst (TryParse 0 data len pose)"
  "fst (TryParse now data len pose) \<Longrightarrow>
     yaw (snd (TryParse now data len pose)) = yaw (snd (TryParse 0 data len pose2))
   \<and> pitch (snd (TryParse now data len pose)) = pitch (snd (TryParse 0 data len pose2))
   \<and> roll (snd (TryParse now data len pose)) = roll (snd (TryParse 0 data len pose2))"
  by (auto simp: TryParse_def Let_def TrackingPose_now_def split: if_splits)

lemma ParsePacket_recv:
  "ParsePacket pose_us (s\<lparr>m_receiveBuffer := recv_into kMaxBufferSize buf bytes\<rparr>)
       (recv_size kMaxBufferSize bytes)
   = (if datagram_valid (Datagram bytes a)
      then (True, s\<lparr>m_receiveBuffer := recv_into kMaxBufferSize buf bytes,
                     m_yaw := yaw (snd (datagram_parse (Datagram bytes a))),
                     m_pitch := pitch (snd (datagram_parse (Datagram bytes a))),
                     m_roll := roll (snd (datagram_parse (Datagram bytes a))),
                     m_hasData := True\<rparr>)
      else (False, s\<lparr>m_receiveBuffer := recv_into kMaxBufferSize buf bytes\<rparr>))"
proof -
  let ?n = "recv_size kMaxBufferSize bytes"
  have len: "?n \<le> length (take kMaxBufferSize bytes)" by (simp add: recv_size_def)
  have buf: "recv_into kMaxBufferSize buf bytes = take kMaxBufferSize bytes @ drop ?n buf"
    by (simp add: recv_into_def recv_size_def min_def)
  have eq: "TryParse pose_us (Some (recv_into kMaxBufferSize buf bytes)) ?n TrackingPose_default
          = TryParse pose_us (Some (take kMaxBufferSize bytes)) ?n TrackingPose_default"
    unfolding buf by (rule TryParse_buffer_tail[OF len])
  show ?thesis
    using TryParse_clock(1)[of pose_us "Some (take kMaxBufferSize bytes)" ?n TrackingPose_default]
          TryParse_clock(2)[of pose_us "Some (take kMaxBufferSize bytes)" ?n TrackingPose_default TrackingPose_default]
    by (auto simp: ParsePacket_def eq datagram_valid_def datagram_parse_def split: prod.splits)
qed


lemma commit_buffer:
  "commit (s\<lparr>m_receiveBuffer := b\<rparr>) e = (commit s e)\<lparr>m_receiveBuffer := b\<rparr>"
  by (simp add: commit_def)

lemma foldl_commit_buffer:
  "foldl commit (s\<lparr>m_receiveBuffer := b\<rparr>) G = (foldl commit s G)\<lparr>m_receiveBuffer := b\<rparr>"
  by (induction G arbitrary: s) (simp_all add: commit_buffer)

lemma foldl_commit_closed:
  "G \<noteq> [] \<Longrightarrow>
   foldl commit s G =
     s\<lparr>m_yaw := yaw (snd (datagram_parse (last G))),
       m_pitch := pitch (snd (datagram_parse (last G))),
       m_roll := roll (snd (datagram_parse (last G))),
       m_hasData := True,
       m_packetsReceived := m_packetsReceived s + of_nat (length G),
       m_bytesReceived := m_bytesReceived s + of_nat (sum_list (map datagram_size G)),
       m_isRemoteConnection := datagram_remote (last G)\<rparr>"
proof (induction G arbitrary: s)
  case Nil
  then show ?case by simp
next
  case (Cons e G)
  show ?case
  proof (cases "G = []")
    case True
    then show ?thesis by (simp add: commit_def)
  next
    case False
    from Cons.IH[OF False, of "commit s e"] False
    show ?thesis by (simp add: commit_def ac_simps)
  qed
qed

lemma Poll_loop_Nil: "Poll_loop pose_us [] k any s = (any, s, [])"
  by simp

lemma Poll_loop_cap:
  "\<not> k < kMaxPacketsPerFrame \<Longrightarrow> Poll_loop pose_us q k any s = (any, s, q)"
  by simp

lemma Poll_loop_RecvError:
  "k < kMaxPacketsPerFrame \<Longrightarrow> Poll_loop pose_us (RecvError # q) k any s = (any, s, q)"
  by simp

lemma Poll_loop_empty_datagram:
  "k < kMaxPacketsPerFrame \<Longrightarrow> recv_size kMaxBufferSize bytes = 0 \<Longrightarrow>
   Poll_loop pose_us (Datagram bytes a # q) k any s
     = (any, s\<lparr>m_receiveBuffer := recv_into kMaxBufferSize (m_receiveBuffer s) bytes\<rparr>, q)"
  by (simp add: Let_def)

lemma Poll_loop_Datagram:
  "k < kMaxPacketsPerFrame \<Longrightarrow> recv_size kMaxBufferSize bytes \<noteq> 0 \<Longrightarrow>
   Poll_loop pose_us (Datagram bytes a # q) k any s
     = (if datagram_valid (Datagram bytes a)
        then Poll_loop pose_us q (k + 1) True
               (commit (s\<lparr>m_receiveBuffer := recv_into kMaxBufferSize (m_receiveBuffer s) bytes\<rparr>)
                  (Datagram bytes a))
        else Poll_loop pose_us q (k + 1) any
               (s\<lparr>m_receiveBuffer := recv_into kMaxBufferSize (m_receiveBuffer s) bytes\<rparr>))"
  by (subst Poll_loop.simps)
     (simp add: Let_def ParsePacket_recv[where a = a] commit_def datagram_size_def
        datagram_remote_def del: Poll_loop.simps)

declare Poll_loop.simps [simp del]

lemma Poll_loop_char:
  "fst (Poll_loop pose_us q k any s)
     = (any \<or> filter datagram_valid
                 (take (kMaxPacketsPerFrame - k) (takeWhile datagram_nonempty q)) \<noteq> [])
   \<and> (fst (snd (Poll_loop pose_us q k any s)))\<lparr>m_receiveBuffer := b\<rparr>
     = (foldl commit s (filter datagram_valid
          (take (kMaxPacketsPerFrame - k) (takeWhile datagram_nonempty q))))\<lparr>m_receiveBuffer := b\<rparr>"
proof (induction q arbitrary: k any s)
  case Nil
  show ?case by (simp add: Poll_loop_Nil)
next
  case (Cons e q)
  show ?case
  proof (cases "k < kMaxPacketsPerFrame")
    case False
    then show ?thesis by (simp add: Poll_loop_cap)
  next
    case klt: True
    then have suc: "kMaxPacketsPerFrame - k = Suc (kMaxPacketsPerFrame - (k + 1))" by simp
    show ?thesis
    proof (cases e)
      case RecvError
      then show ?thesis using klt by (simp add: Poll_loop_RecvError datagram_nonempty_def)
    next
      case (Datagram bytes a)
      show ?thesis
      proof (cases "recv_size kMaxBufferSize bytes = 0")
        case True
        then show ?thesis using klt Datagram
          by (simp add: Poll_loop_empty_datagram datagram_nonempty_def)
      next
        case False
        then have ne: "datagram_nonempty e" using Datagram by (simp add: datagram_nonempty_def)
        show ?thesis
        proof (cases "datagram_valid e")
          case True
          from Cons.IH[of "k + 1" True
              "commit (s\<lparr>m_receiveBuffer := recv_into kMaxBufferSize (m_receiveBuffer s) bytes\<rparr>) e"]
          show ?thesis using klt False True ne Datagram
            by (simp add: Poll_loop_Datagram suc foldl_commit_buffer commit_buffer del: One_nat_def)
        next
          case nv: False
          from Cons.IH[of "k + 1" any
              "s\<lparr>m_receiveBuffer := recv_into kMaxBufferSize (m_receiveBuffer s) bytes\<rparr>"]
          show ?thesis using klt False nv ne Datagram
            by (simp add: Poll_loop_Datagram suc foldl_commit_buffer commit_buffer del: One_nat_def)
        qed
      qed
    qed
  qed
qed


lemma Poll_loop_state:
  "fst (snd (Poll_loop pose_us q 0 False s))
     = (foldl commit s (filter datagram_valid (poll_delivered q)))
         \<lparr>m_receiveBuffer := m_receiveBuffer (fst (snd (Poll_loop pose_us q 0 False s)))\<rparr>"
proof -
  let ?t = "fst (snd (Poll_loop pose_us q 0 False s))"
  from Poll_loop_char[of pose_us q 0 False s "m_receiveBuffer ?t"]
  show ?thesis by (simp add: poll_delivered_def)
qed

text \<open>
  C5. An uninitialised receiver or one whose socket is closed polls nothing. Otherwise,
  for every sequence of pending events, with \<open>G\<close> the successfully parsed datagrams among
  those the call hands to the parser: \<open>Poll\<close> returns true exactly when \<open>G\<close> is not empty.
  If \<open>G\<close> is empty, nothing but the private receive buffer changes. If not, the latest
  pose is that of the last datagram of \<open>G\<close>, the has-data flag is set, the remote flag is
  that of the last datagram's sender, the last-receive time is the clock reading, the
  packet counter has advanced by the length of \<open>G\<close> and the byte counter by the sizes of
  the datagrams of \<open>G\<close>; every other field but the receive buffer is unchanged. The
  datagrams that fail to parse do not occur in the result.
\<close>

theorem Poll_spec:
  assumes "G = filter datagram_valid (poll_delivered q)"
    and "s' = fst (snd (Poll pose_us now_ms q s))"
  shows "(\<not> (m_initialized s \<and> IsOpen (m_socket s)) \<longrightarrow>
            Poll pose_us now_ms q s = (False, s, q))
       \<and> (m_initialized s \<and> IsOpen (m_socket s) \<longrightarrow>
            fst (Poll pose_us now_ms q s) = (G \<noteq> [])
          \<and> (G = [] \<longrightarrow> s' = s\<lparr>m_receiveBuffer := m_receiveBuffer s'\<rparr>)
          \<and> (G \<noteq> [] \<longrightarrow>
                s' = s\<lparr>m_yaw := yaw (snd (datagram_parse (last G))),
                        m_pitch := pitch (snd (datagram_parse (last G))),
                        m_roll := roll (snd (datagram_parse (last G))),
                        m_hasData := True,
                        m_packetsReceived := m_packetsReceived s + of_nat (length G),
                        m_bytesReceived :=
                          m_bytesReceived s + of_nat (sum_list (map datagram_size G)),
                        m_isRemoteConnection := datagram_remote (last G),
                        m_receiveBuffer := m_receiveBuffer s',
                        m_lastReceiveTimeMs := now_ms\<rparr>))"
proof (cases "m_initialized s \<and> IsOpen (m_socket s)")
  case False
  then show ?thesis by (auto simp: Poll_def)
next
  case True
  let ?r = "Poll_loop pose_us q 0 False s"
  have any: "fst ?r = (G \<noteq> [])"
    using Poll_loop_char[of pose_us q 0 False s undefined] assms(1)
    by (simp add: poll_delivered_def)
  have st: "fst (snd ?r) = (foldl commit s G)\<lparr>m_receiveBuffer := m_receiveBuffer (fst (snd ?r))\<rparr>"
    using Poll_loop_state[of pose_us q s] assms(1) by simp
  have res: "fst (Poll pose_us now_ms q s) = fst ?r"
    and s': "s' = (if fst ?r then (fst (snd ?r))\<lparr>m_lastReceiveTimeMs := now_ms\<rparr> else fst (snd ?r))"
    using True assms(2) by (simp_all add: Poll_def split: prod.splits)
  show ?thesis
  proof (cases "G = []")
    case e: True
    then have "s' = fst (snd ?r)" using s' any by simp
    moreover have "fst (snd ?r) = s\<lparr>m_receiveBuffer := m_receiveBuffer (fst (snd ?r))\<rparr>"
      using st e by simp
    ultimately show ?thesis using True res any e by simp
  next
    case ne: False
    have "s' = (fst (snd ?r))\<lparr>m_lastReceiveTimeMs := now_ms\<rparr>" using s' any ne by simp
    then have "s' = (foldl commit s G)\<lparr>m_receiveBuffer := m_receiveBuffer (fst (snd ?r)),
                  m_lastReceiveTimeMs := now_ms\<rparr>"
      using st by simp
    then show ?thesis using True res any ne by (simp add: foldl_commit_closed[OF ne])
  qed
qed

lemma packet_lengths:
  "length example_packet = 48" "length example_packet2 = 48" "length nan_packet = 48"
  by (simp_all add: example_packet_def example_packet2_def nan_packet_def)

lemma load_double_example_packet2:
  "load_double example_packet2 24 = 0xC014000000000000"
  "load_double example_packet2 32 = 0x4024000000000000"
  "load_double example_packet2 40 = 0"
  by (simp_all add: example_packet2_def load_double_def le_word64_def)

lemma datagram_parse_examples:
  "datagram_parse (Datagram example_packet a)
     = (True, \<lparr>yaw = 0x41200000, pitch = 0xC0A00000, roll = 0, timestamp_us = 0\<rparr>)"
  "datagram_parse (Datagram example_packet2 a)
     = (True, \<lparr>yaw = 0xC0A00000, pitch = 0x41200000, roll = 0, timestamp_us = 0\<rparr>)"
  "\<not> fst (datagram_parse (Datagram nan_packet a))"
  "\<not> fst (datagram_parse (Datagram [1, 2, 3] a))"
  by (simp_all add: datagram_parse_def recv_size_def kMaxBufferSize_def packet_lengths
      TryParse_def Let_def kMinPacketSize_def kYawOffset_def kPitchOffset_def kRollOffset_def
      TrackingPose_now_def load_double_example_packet load_double_example_packet2
      load_double_nan_packet double_to_float_examples finite_examples)

lemma sample_receiver_open: "m_initialized sample_receiver" "IsOpen (m_socket sample_receiver)"
  by (simp_all add: sample_receiver_def Initialize_def PollingUdpReceiver_init_def
      UdpSocket_Open_def UdpSocket_init_def INVALID_SOCKET_def IsOpen_def)

lemma sample_receiver_fields:
  "m_packetsReceived sample_receiver = 0" "m_bytesReceived sample_receiver = 0"
  "\<not> m_hasData sample_receiver" "\<not> m_hasOffset sample_receiver"
  by (simp_all add: sample_receiver_def Initialize_def PollingUdpReceiver_init_def
      UdpSocket_Open_def UdpSocket_init_def INVALID_SOCKET_def)

lemma sample_burst_valid:
  "filter datagram_valid (poll_delivered sample_burst)
     = [Datagram example_packet 0xC0A80001, Datagram example_packet2 0x7F000001]"
  by (simp add: sample_burst_def poll_delivered_def kMaxPacketsPerFrame_def
      datagram_nonempty_def datagram_valid_def datagram_parse_examples recv_size_def
      kMaxBufferSize_def packet_lengths)

theorem Poll_spec_witness:
  "m_initialized sample_receiver \<and> IsOpen (m_socket sample_receiver)
   \<and> fst (Poll 5 1000 sample_burst sample_receiver)
   \<and> GetRawRotation (fst (snd (Poll 5 1000 sample_burst sample_receiver)))
        = Some (0xC0A00000, 0x41200000, 0)
   \<and> m_packetsReceived (fst (snd (Poll 5 1000 sample_burst sample_receiver))) = 2
   \<and> m_bytesReceived (fst (snd (Poll 5 1000 sample_burst sample_receiver))) = 96
   \<and> \<not> m_isRemoteConnection (fst (snd (Poll 5 1000 sample_burst sample_receiver)))
   \<and> m_lastReceiveTimeMs (fst (snd (Poll 5 1000 sample_burst sample_receiver))) = 1000
   \<and> \<not> fst (Poll 5 1000 [Datagram nan_packet 0xC0A80001] sample_receiver)"
proof -
  let ?S = "fst (snd (Poll 5 1000 sample_burst sample_receiver))"
  have g: "filter datagram_valid (poll_delivered [Datagram nan_packet 0xC0A80001]) = []"
    by (simp add: poll_delivered_def kMaxPacketsPerFrame_def datagram_nonempty_def
        datagram_valid_def datagram_parse_examples recv_size_def kMaxBufferSize_def packet_lengths)
  have r: "fst (Poll 5 1000 sample_burst sample_receiver)"
    and e: "?S = sample_receiver
               \<lparr>m_yaw := 0xC0A00000, m_pitch := 0x41200000, m_roll := 0, m_hasData := True,
                m_packetsReceived := 2, m_bytesReceived := 96, m_isRemoteConnection := False,
                m_receiveBuffer := m_receiveBuffer ?S, m_lastReceiveTimeMs := 1000\<rparr>"
    using Poll_spec[OF refl refl, where pose_us = 5 and now_ms = 1000 and q = sample_burst
         and s = sample_receiver]
    by (simp_all add: sample_receiver_open sample_burst_valid datagram_parse_examples
        datagram_size_def datagram_remote_def recv_size_def kMaxBufferSize_def packet_lengths
        IsRemoteAddress_def INADDR_LOOPBACK_def sample_receiver_fields)
  have n: "\<not> fst (Poll 5 1000 [Datagram nan_packet 0xC0A80001] sample_receiver)"
    using Poll_spec[OF refl refl, where pose_us = 5 and now_ms = 1000
         and q = "[Datagram nan_packet 0xC0A80001]" and s = sample_receiver]
    by (simp add: sample_receiver_open g)
  have "GetRawRotation ?S = Some (0xC0A00000, 0x41200000, 0)"
    by (subst e) (simp add: GetRawRotation_def)
  moreover have "m_packetsReceived ?S = 2" by (subst e) simp
  moreover have "m_bytesReceived ?S = 96" by (subst e) simp
  moreover have "\<not> m_isRemoteConnection ?S" by (subst e) simp
  moreover have "m_lastReceiveTimeMs ?S = 1000" by (subst e) simp
  ultimately show ?thesis using r n sample_receiver_open by simp
qed

section \<open>Properties of stopping the receivers\<close>

lemma ReceiverThread_step_running:
  "m_running (ReceiverThread_step pose_us now_us buffer ev r) = m_running r"
  by (simp add: ReceiverThread_step_def Let_def split: recv_event.splits prod.splits)

lemma stopped_receiver_defaults:
  "UdpReceiver_reachable r \<Longrightarrow> \<not> m_running r \<Longrightarrow> published_defaults r"
proof (induction rule: UdpReceiver_reachable.induct)
  case constructed
  show ?case by (simp add: published_defaults_def UdpReceiver_init_def TrackingData_init_def)
next
  case (started r os)
  then show ?case
    by (auto simp: Start_def published_defaults_def split: if_splits prod.splits)
next
  case (stopped r)
  then show ?case
    by (cases "m_running r") (simp_all add: Stop_def published_defaults_def TrackingData_Reset_def)
next
  case (received r pose_us now_us buffer ev)
  then show ?case by (simp add: ReceiverThread_step_running)
next
  case (recentered r)
  then show ?case
    by (auto simp: UdpReceiver_Recenter_def published_defaults_def TrackingData_Get_def
        split: option.splits if_splits)
qed

lemma Stop_not_running: "\<not> m_running (Stop r)"
  by (simp add: Stop_def)

lemma TryParse_example_packet:
  "TryParse now (Some (example_packet @ rest)) 48 pose
     = (True, \<lparr>yaw = 0x41200000, pitch = 0xC0A00000, roll = 0, timestamp_us = now\<rparr>)"
proof -
  have "TryParse now (Some (example_packet @ rest)) 48 pose
          = TryParse now (Some example_packet) 48 pose"
    by (rule TryParse_buffer_tail) (simp add: packet_lengths)
  then show ?thesis
    by (simp add: TryParse_def Let_def kMinPacketSize_def kYawOffset_def kPitchOffset_def
        kRollOffset_def TrackingPose_now_def load_double_example_packet
        double_to_float_examples finite_examples)
qed

lemma sample_udp_receiver_state:
  "m_running sample_udp_receiver"
  "TrackingData_Get (m_trackingData sample_udp_receiver) = Some (0x41200000, 0xC0A00000, 0)"
  "UdpReceiver.m_yawOffset sample_udp_receiver = 0x41200000"
  "m_lastReceiveTimestamp sample_udp_receiver = 6"
  "UdpReceiver.m_isRemoteConnection sample_udp_receiver"
  by (simp_all add: sample_udp_receiver_def UdpReceiver_Recenter_def ReceiverThread_step_def
      Start_def UdpReceiver_init_def UdpSocket_Open_def UdpSocket_init_def INVALID_SOCKET_def
      recv_size_def recv_into_def kReceiveBufferSize_def kMinPacketSize_def packet_lengths
      TryParse_example_packet TrackingData_Set_def TrackingData_Get_def TrackingData_init_def
      IsRemoteAddress_def INADDR_LOOPBACK_def Let_def)

lemma Poll_single_example:
  "Poll 5 1000 [Datagram example_packet 0x7F000001] sample_receiver
     = (True,
        sample_receiver
          \<lparr>m_receiveBuffer :=
              recv_into kMaxBufferSize (m_receiveBuffer sample_receiver) example_packet,
            m_yaw := 0x41200000, m_pitch := 0xC0A00000, m_roll := 0, m_hasData := True,
            m_packetsReceived := 1, m_bytesReceived := 48, m_isRemoteConnection := False,
            m_lastReceiveTimeMs := 1000\<rparr>,
        [])"
  by (simp add: Poll_def sample_receiver_open Poll_loop_Datagram Poll_loop_Nil
      kMaxPacketsPerFrame_def recv_size_def kMaxBufferSize_def packet_lengths datagram_valid_def
      datagram_parse_examples commit_def datagram_size_def datagram_remote_def
      IsRemoteAddress_def INADDR_LOOPBACK_def sample_receiver_fields)

text \<open>
  C4, as the code has it. After \<open>Stop\<close> on the threaded receiver, in every state the
  receiver can reach and in every running state, the published and connection state
  (latest pose and has-data flag, per-axis offsets, last-receive timestamp, remote flag)
  is at its zero or unset defaults, and \<open>GetRotation\<close> returns false. \<open>Shutdown\<close> on the
  polling receiver closes the socket and clears the initialised flag, and nothing else:
  latest pose, has-data flag, offsets, last-receive time, remote flag and statistics keep
  their values and the rotation getters answer as before. The next successful
  \<open>Initialize\<close> clears the flags, the time and the statistics.
\<close>

theorem Stop_resets_Shutdown_keeps:
  "(UdpReceiver_reachable r \<or> m_running r \<longrightarrow>
       TrackingData.yaw (m_trackingData (Stop r)) = 0
     \<and> TrackingData.pitch (m_trackingData (Stop r)) = 0
     \<and> TrackingData.roll (m_trackingData (Stop r)) = 0
     \<and> \<not> has_data (m_trackingData (Stop r))
     \<and> UdpReceiver.m_yawOffset (Stop r) = 0
     \<and> UdpReceiver.m_pitchOffset (Stop r) = 0
     \<and> UdpReceiver.m_rollOffset (Stop r) = 0
     \<and> m_lastReceiveTimestamp (Stop r) = 0
     \<and> \<not> UdpReceiver.m_isRemoteConnection (Stop r)
     \<and> \<not> m_running (Stop r)
     \<and> UdpReceiver_GetRotation fsub (Stop r) = None)
   \<and> (m_initialized p \<longrightarrow>
         Shutdown p = p\<lparr>m_socket := UdpSocket_Close (m_socket p), m_initialized := False\<rparr>)
   \<and> (\<not> m_initialized p \<longrightarrow> Shutdown p = p)
   \<and> \<not> m_initialized (Shutdown p)
   \<and> GetRotation fsub (Shutdown p) = GetRotation fsub p
   \<and> GetRawRotation (Shutdown p) = GetRawRotation p
   \<and> GetPose fsub now (Shutdown p) = GetPose fsub now p
   \<and> m_hasData (Shutdown p) = m_hasData p
   \<and> m_hasOffset (Shutdown p) = m_hasOffset p
   \<and> m_lastReceiveTimeMs (Shutdown p) = m_lastReceiveTimeMs p
   \<and> m_isRemoteConnection (Shutdown p) = m_isRemoteConnection p
   \<and> m_packetsReceived (Shutdown p) = m_packetsReceived p
   \<and> m_bytesReceived (Shutdown p) = m_bytesReceived p
   \<and> (fst (Initialize os (Shutdown p)) \<longrightarrow>
         GetRotation fsub (snd (Initialize os (Shutdown p))) = None
       \<and> \<not> m_hasData (snd (Initialize os (Shutdown p)))
       \<and> \<not> m_hasOffset (snd (Initialize os (Shutdown p)))
       \<and> m_lastReceiveTimeMs (snd (Initialize os (Shutdown p))) = 0
       \<and> \<not> m_isRemoteConnection (snd (Initialize os (Shutdown p)))
       \<and> m_packetsReceived (snd (Initialize os (Shutdown p))) = 0
       \<and> m_bytesReceived (snd (Initialize os (Shutdown p))) = 0)"
proof -
  have d: "published_defaults (Stop r)" if "UdpReceiver_reachable r \<or> m_running r"
  proof (cases "m_running r")
    case True
    then show ?thesis by (simp add: Stop_def published_defaults_def TrackingData_Reset_def)
  next
    case False
    with that have "UdpReceiver_reachable (Stop r)" by (auto intro: stopped)
    then show ?thesis by (rule stopped_receiver_defaults) (rule Stop_not_running)
  qed
  have stop: "UdpReceiver_reachable r \<or> m_running r \<longrightarrow>
       TrackingData.yaw (m_trackingData (Stop r)) = 0
     \<and> TrackingData.pitch (m_trackingData (Stop r)) = 0
     \<and> TrackingData.roll (m_trackingData (Stop r)) = 0
     \<and> \<not> has_data (m_trackingData (Stop r))
     \<and> UdpReceiver.m_yawOffset (Stop r) = 0
     \<and> UdpReceiver.m_pitchOffset (Stop r) = 0
     \<and> UdpReceiver.m_rollOffset (Stop r) = 0
     \<and> m_lastReceiveTimestamp (Stop r) = 0
     \<and> \<not> UdpReceiver.m_isRemoteConnection (Stop r)
     \<and> \<not> m_running (Stop r)
     \<and> UdpReceiver_GetRotation fsub (Stop r) = None"
    using d Stop_not_running[of r]
    by (auto simp: published_defaults_def UdpReceiver_GetRotation_def TrackingData_Get_def)
  have sh: "(m_initialized p \<longrightarrow>
         Shutdown p = p\<lparr>m_socket := UdpSocket_Close (m_socket p), m_initialized := False\<rparr>)
     \<and> (\<not> m_initialized p \<longrightarrow> Shutdown p = p) \<and> \<not> m_initialized (Shutdown p)"
    by (simp add: Shutdown_def)
  have keep: "GetRotation fsub (Shutdown p) = GetRotation fsub p
   \<and> GetRawRotation (Shutdown p) = GetRawRotation p
   \<and> GetPose fsub now (Shutdown p) = GetPose fsub now p
   \<and> m_hasData (Shutdown p) = m_hasData p
   \<and> m_hasOffset (Shutdown p) = m_hasOffset p
   \<and> m_lastReceiveTimeMs (Shutdown p) = m_lastReceiveTimeMs p
   \<and> m_isRemoteConnection (Shutdown p) = m_isRemoteConnection p
   \<and> m_packetsReceived (Shutdown p) = m_packetsReceived p
   \<and> m_bytesReceived (Shutdown p) = m_bytesReceived p"
    by (simp add: Shutdown_def GetRotation_def GetRawRotation_def GetPose_def)
  have init: "fst (Initialize os (Shutdown p)) \<longrightarrow>
         GetRotation fsub (snd (Initialize os (Shutdown p))) = None
       \<and> \<not> m_hasData (snd (Initialize os (Shutdown p)))
       \<and> \<not> m_hasOffset (snd (Initialize os (Shutdown p)))
       \<and> m_lastReceiveTimeMs (snd (Initialize os (Shutdown p))) = 0
       \<and> \<not> m_isRemoteConnection (snd (Initialize os (Shutdown p)))
       \<and> m_packetsReceived (snd (Initialize os (Shutdown p))) = 0
       \<and> m_bytesReceived (snd (Initialize os (Shutdown p))) = 0"
    using sh by (auto simp: Initialize_def GetRotation_def split: prod.splits)
  from stop sh keep init show ?thesis by blast
qed

lemma sample_udp_receiver_reachable: "UdpReceiver_reachable sample_udp_receiver"
  unfolding sample_udp_receiver_def
  by (intro recentered received started constructed)
     (simp add: Start_def UdpReceiver_init_def UdpSocket_Open_def UdpSocket_init_def
        INVALID_SOCKET_def)

theorem Stop_resets_Shutdown_keeps_witness:
  "UdpReceiver_reachable sample_udp_receiver
   \<and> m_running sample_udp_receiver
   \<and> UdpReceiver_GetRotation (\<lambda>a b. a) sample_udp_receiver = Some (0x41200000, 0xC0A00000, 0)
   \<and> UdpReceiver_GetRotation (\<lambda>a b. a) (Stop sample_udp_receiver) = None
   \<and> m_lastReceiveTimestamp (Stop sample_udp_receiver) = 0
   \<and> UdpReceiver.m_yawOffset (Stop sample_udp_receiver) = 0
   \<and> \<not> UdpReceiver.m_isRemoteConnection (Stop sample_udp_receiver)
   \<and> UdpReceiver_GetRotation (\<lambda>a b. a) (Stop (Stop sample_udp_receiver)) = None
   \<and> m_initialized sample_receiver
   \<and> \<not> m_initialized (Shutdown sample_receiver)
   \<and> fst (Initialize (Some 4) (Shutdown sample_receiver))
   \<and> GetRotation (\<lambda>a b. a) (snd (Initialize (Some 4) (Shutdown sample_receiver))) = None"
proof -
  have i: "fst (Initialize (Some 4) (Shutdown sample_receiver))"
    by (simp add: Initialize_def Shutdown_def sample_receiver_open UdpSocket_Open_def
        UdpSocket_Close_def INVALID_SOCKET_def split: prod.splits)
  have g: "UdpReceiver_GetRotation (\<lambda>a b. a) sample_udp_receiver
             = Some (0x41200000, 0xC0A00000, 0)"
    by (simp add: UdpReceiver_GetRotation_def sample_udp_receiver_state)
  have rs: "UdpReceiver_reachable (Stop sample_udp_receiver)"
    by (rule stopped) (rule sample_udp_receiver_reachable)
  note t = Stop_resets_Shutdown_keeps[where r = sample_udp_receiver and p = sample_receiver
         and fsub = "\<lambda>a b. a" and os = "Some 4" and now = 0]
  note t2 = Stop_resets_Shutdown_keeps[where r = "Stop sample_udp_receiver"
         and p = sample_receiver and fsub = "\<lambda>a b. a" and os = "Some 4" and now = 0]
  have "UdpReceiver_GetRotation (\<lambda>a b. a) (Stop sample_udp_receiver) = None
      \<and> m_lastReceiveTimestamp (Stop sample_udp_receiver) = 0
      \<and> UdpReceiver.m_yawOffset (Stop sample_udp_receiver) = 0
      \<and> \<not> UdpReceiver.m_isRemoteConnection (Stop sample_udp_receiver)"
    using t sample_udp_receiver_reachable by blast
  moreover have "UdpReceiver_GetRotation (\<lambda>a b. a) (Stop (Stop sample_udp_receiver)) = None"
    using t2 rs by blast
  moreover have "\<not> m_initialized (Shutdown sample_receiver)" using t by blast
  moreover have "GetRotation (\<lambda>a b. a) (snd (Initialize (Some 4) (Shutdown sample_receiver))) = None"
    using t i by blast
  ultimately show ?thesis
    using i g sample_udp_receiver_state(1) sample_receiver_open sample_udp_receiver_reachable
    by blast
qed

text \<open>
  C4 as stated fails for the polling receiver: after one valid datagram has been polled,
  \<open>Shutdown\<close> leaves the pose, the has-data flag, the last-receive time and both
  counters as they were, and the rotation getters still return the pose.
\<close>

theorem Shutdown_keeps_session_state:
  "GetRawRotation (Shutdown (fst (snd
       (Poll 5 1000 [Datagram example_packet 0x7F000001] sample_receiver))))
     = Some (0x41200000, 0xC0A00000, 0)
   \<and> GetRotation (\<lambda>a b. a) (Shutdown (fst (snd
       (Poll 5 1000 [Datagram example_packet 0x7F000001] sample_receiver))))
     = Some (0x41200000, 0xC0A00000, 0)
   \<and> m_hasData (Shutdown (fst (snd
       (Poll 5 1000 [Datagram example_packet 0x7F000001] sample_receiver))))
   \<and> m_lastReceiveTimeMs (Shutdown (fst (snd
       (Poll 5 1000 [Datagram example_packet 0x7F000001] sample_receiver)))) = 1000
   \<and> m_packetsReceived (Shutdown (fst (snd
       (Poll 5 1000 [Datagram example_packet 0x7F000001] sample_receiver)))) = 1
   \<and> m_bytesReceived (Shutdown (fst (snd
       (Poll 5 1000 [Datagram example_packet 0x7F000001] sample_receiver)))) = 48"
  by (simp add: Poll_single_example Shutdown_def GetRawRotation_def GetRotation_def
      sample_receiver_open sample_receiver_fields)

end
